theory Spec2Isabelle
  imports Complex_Main "HOL-Library.Sublist"
begin

section \<open>Python strings\<close>

text \<open>
  A Python \<open>str\<close> is a sequence of Unicode code points; it is modelled as the list of
  their numbers, so that \<open>length\<close> counts what \<open>len\<close> counts. A literal of the source
  is written \<open>lit ''...''\<close>.
\<close>

type_synonym pystr = "nat list"

definition lit :: "string \<Rightarrow> pystr" where
  "lit s = map of_char s"

subsection \<open>\<open>_sanitize_filename\<close>\<close>

text \<open>
  The character class of the pattern \<^verbatim>\<open>[\\/*?:"<>|#]\<close>: backslash, slash, asterisk,
  question mark, colon, double quote, less-than, greater-than, vertical bar, hash.
\<close>

definition illegal :: "nat set" where
  "illegal = {92, 47, 42, 63, 58, 34, 60, 62, 124, 35}"

text \<open>
  \<open>re.sub(pattern, repl, s)\<close> for a pattern that is a single character class: the scan
  goes left to right, a character of the class is a match and is replaced by \<open>repl\<close>,
  any other character is copied.
\<close>

fun re_sub_class :: "nat set \<Rightarrow> pystr \<Rightarrow> pystr \<Rightarrow> pystr" where
  "re_sub_class cls repl [] = []"
| "re_sub_class cls repl (c # cs) =
     (if c \<in> cls then repl @ re_sub_class cls repl cs else c # re_sub_class cls repl cs)"

definition sanitize_filename :: "pystr \<Rightarrow> pystr" where
  "sanitize_filename title = re_sub_class illegal [] title"

subsection \<open>Whitespace, \<open>strip\<close>, \<open>lower\<close>\<close>

text \<open>
  The tables of the Unicode database belong to the interpreter, not to the program. The
  ASCII part of each is written out; the part beyond ASCII is a parameter:
  \<open>uspace c\<close> says whether the non-ASCII code point \<open>c\<close> is whitespace, \<open>ulower s\<close> is
  \<open>s.lower()\<close> for a string \<open>s\<close> that has a non-ASCII code point (the mapping is not
  character-wise there: final sigma, dotted capital I), and \<open>udecimal c\<close> is the value of
  the non-ASCII decimal digit \<open>c\<close>.
\<close>

record unicode =
  uspace :: "nat \<Rightarrow> bool"
  ulower :: "pystr \<Rightarrow> pystr"
  udecimal :: "nat \<Rightarrow> nat option"

text \<open>Whitespace for \<open>str.strip\<close>: TAB to CR, FS to US and the space.\<close>

definition isspace :: "unicode \<Rightarrow> nat \<Rightarrow> bool" where
  "isspace U c =
     (if c < 128 then (9 \<le> c \<and> c \<le> 13) \<or> (28 \<le> c \<and> c \<le> 31) \<or> c = 32
      else uspace U c)"

definition strip :: "unicode \<Rightarrow> pystr \<Rightarrow> pystr" where
  "strip U s = rev (dropWhile (isspace U) (rev (dropWhile (isspace U) s)))"

definition ascii_lower :: "nat \<Rightarrow> nat" where
  "ascii_lower c = (if 65 \<le> c \<and> c \<le> 90 then c + 32 else c)"

definition lower :: "unicode \<Rightarrow> pystr \<Rightarrow> pystr" where
  "lower U s = (if list_all (\<lambda>c. c < 128) s then map ascii_lower s else ulower U s)"

subsection \<open>Substring test, \<open>split\<close>, \<open>join\<close>\<close>

text \<open>\<open>p in s\<close> for strings: \<open>p\<close> occurs in \<open>s\<close> as a contiguous block.\<close>

fun is_substr :: "pystr \<Rightarrow> pystr \<Rightarrow> bool" where
  "is_substr p [] = (p = [])"
| "is_substr p (c # cs) = (prefix p (c # cs) \<or> is_substr p cs)"

text \<open>\<open>s.split(sep)\<close> for a separator of one character; the result is never empty.\<close>

fun split :: "nat \<Rightarrow> pystr \<Rightarrow> pystr list" where
  "split sep [] = [[]]"
| "split sep (c # cs) =
     (if c = sep then [] # split sep cs
      else (case split sep cs of [] \<Rightarrow> [[c]] | p # ps \<Rightarrow> (c # p) # ps))"

text \<open>\<open>sep.join(xs)\<close>.\<close>

fun str_join :: "pystr \<Rightarrow> pystr list \<Rightarrow> pystr" where
  "str_join sep [] = []"
| "str_join sep [x] = x"
| "str_join sep (x # y # ys) = x @ sep @ str_join sep (y # ys)"

text \<open>\<open>os.path.join(a, b)\<close> of \<open>posixpath\<close>, for two components.\<close>

definition path_join :: "pystr \<Rightarrow> pystr \<Rightarrow> pystr" where
  "path_join a b =
     (if b \<noteq> [] \<and> hd b = 47 then b
      else if a = [] \<or> last a = 47 then a @ b
      else a @ [47] @ b)"

subsection \<open>\<open>str(n)\<close> and \<open>int(s)\<close>\<close>

function str_of_nat :: "nat \<Rightarrow> pystr" where
  "str_of_nat n = (if n < 10 then [48 + n] else str_of_nat (n div 10) @ [48 + n mod 10])"
  by pat_completeness auto
termination
  by (relation "measure (\<lambda>n. n)") auto

declare str_of_nat.simps [simp del]

text \<open>
  \<open>int(s)\<close> in base ten. The interpreter first maps a string that has a non-ASCII code
  point character by character (non-ASCII whitespace to a space, a non-ASCII decimal digit
  to its ASCII digit, any other non-ASCII character to an invalid one) and then parses:
  whitespace (TAB to CR and the space only), an optional sign, digits with single
  underscores between them, whitespace. \<open>maxd\<close> is the interpreter's limit on the number
  of digits (\<open>sys.get_int_max_str_digits()\<close>, \<open>0\<close> for none; it applies above 640 digits).
  \<open>None\<close> is \<open>ValueError\<close>.
\<close>

datatype tok = Sp | Dg nat | Plus | Minus | Us | Bad

definition tok_of :: "unicode \<Rightarrow> nat \<Rightarrow> tok" where
  "tok_of U c =
     (if c < 127 then
        (if (9 \<le> c \<and> c \<le> 13) \<or> c = 32 then Sp
         else if 48 \<le> c \<and> c \<le> 57 then Dg (c - 48)
         else if c = 43 then Plus
         else if c = 45 then Minus
         else if c = 95 then Us
         else Bad)
      else if c < 128 then Bad
      else if uspace U c then Sp
      else (case udecimal U c of Some d \<Rightarrow> (if d < 10 then Dg d else Bad) | None \<Rightarrow> Bad))"

fun is_body :: "tok \<Rightarrow> bool" where
  "is_body (Dg d) = True"
| "is_body Us = True"
| "is_body t = False"

fun no_double_us :: "tok list \<Rightarrow> bool" where
  "no_double_us (Us # Us # ts) = False"
| "no_double_us (t # ts) = no_double_us ts"
| "no_double_us [] = True"

fun digits_of :: "tok list \<Rightarrow> nat list" where
  "digits_of [] = []"
| "digits_of (Dg d # ts) = d # digits_of ts"
| "digits_of (t # ts) = digits_of ts"

definition py_int :: "unicode \<Rightarrow> nat \<Rightarrow> pystr \<Rightarrow> int option" where
  "py_int U maxd s =
     (let ts = dropWhile (\<lambda>t. t = Sp) (map (tok_of U) s);
          neg = (ts \<noteq> [] \<and> hd ts = Minus);
          ts1 = (if ts \<noteq> [] \<and> (hd ts = Plus \<or> hd ts = Minus) then tl ts else ts);
          body = takeWhile is_body ts1;
          rest = dropWhile is_body ts1;
          ds = digits_of body
      in if body = [] \<or> hd body = Us \<or> last body = Us \<or> \<not> no_double_us body then None
         else if 640 < length ds \<and> 0 < maxd \<and> maxd < length ds then None
         else if \<not> list_all (\<lambda>t. t = Sp) rest then None
         else let v = foldl (\<lambda>a d. 10 * a + int d) 0 ds in Some (if neg then - v else v))"

text \<open>
  \<open>re.search(r"list=([a-zA-Z0-9_-]+)", url)\<close>, returning \<open>group(1)\<close> of the leftmost
  match and \<open>None\<close> where there is no match: \<open>list=\<close> followed by at least one
  character of the class, of which the group takes as many as there are.
\<close>

definition is_id_char :: "nat \<Rightarrow> bool" where
  "is_id_char c =
     ((97 \<le> c \<and> c \<le> 122) \<or> (65 \<le> c \<and> c \<le> 90) \<or> (48 \<le> c \<and> c \<le> 57) \<or> c = 95 \<or> c = 45)"

fun re_search_list :: "pystr \<Rightarrow> pystr option" where
  "re_search_list [] = None"
| "re_search_list (c # cs) =
     (if prefix (lit ''list='') (c # cs) \<and> takeWhile is_id_char (drop 5 (c # cs)) \<noteq> []
      then Some (takeWhile is_id_char (drop 5 (c # cs)))
      else re_search_list cs)"

text \<open>
  The text of the \<open>AttributeError\<close> for an attribute of \<open>None\<close>; \<open>39\<close> is the
  apostrophe.
\<close>

definition none_has_no_attribute :: "pystr \<Rightarrow> pystr" where
  "none_has_no_attribute a =
     [39] @ lit ''NoneType'' @ [39] @ lit '' object has no attribute '' @ [39] @ a @ [39]"

section \<open>The world outside the program\<close>

text \<open>
  The file system is the set of the paths of the files that exist and the set of the
  directories the program has made; \<open>out\<close> is standard output, one entry for each
  \<open>print\<close> and each prompt of \<open>input\<close>; \<open>calls\<close> records, in order, the calls of the
  two download operations and of the collaborators; \<open>clock\<close> counts them, as the
  answers of the collaborators may change with time. An exception is the text
  \<open>str(e)\<close> the handlers print.
\<close>

type_synonym exn = pystr

datatype call =
    DownloadVideo pystr pystr
  | DownloadPlaylist pystr
  | NewYouTube pystr
  | NewPlaylist pystr
  | RunPopen "pystr list"
  | Sleep

record world =
  files :: "pystr set"
  dirs :: "pystr set"
  out :: "pystr list"
  calls :: "call list"
  clock :: nat

definition print :: "pystr \<Rightarrow> world \<Rightarrow> world" where
  "print s w = w\<lparr>out := out w @ [s]\<rparr>"

definition called :: "call \<Rightarrow> world \<Rightarrow> world" where
  "called c w = w\<lparr>calls := calls w @ [c], clock := Suc (clock w)\<rparr>"

definition write_file :: "pystr \<Rightarrow> world \<Rightarrow> world" where
  "write_file p w = w\<lparr>files := insert p (files w)\<rparr>"

definition remove_file :: "pystr \<Rightarrow> world \<Rightarrow> world" where
  "remove_file p w = w\<lparr>files := files w - {p}\<rparr>"

definition makedirs :: "pystr \<Rightarrow> world \<Rightarrow> world" where
  "makedirs p w = w\<lparr>dirs := insert p (dirs w)\<rparr>"

text \<open>
  What a call that writes a file does: it succeeds, or it raises, leaving a partial file
  behind or not.
\<close>

datatype io = Succeeds | Fails exn bool

text \<open>
  The objects of the extraction library. A caption writes the file \<open>cap_file title dir\<close>;
  a stream writes \<open>os.path.join(output_path, filename)\<close> and returns that path. Each
  property of a video that the library computes on demand may raise.
\<close>

record caption =
  cap_file :: "pystr \<Rightarrow> pystr \<Rightarrow> pystr"
  cap_download :: io

record stream =
  resolution :: pystr
  download_result :: io
  stream_to_buffer :: "exn option"

record video =
  yt_title :: pystr
  yt_length :: "exn + nat"
  yt_captions :: "exn + (pystr \<Rightarrow> caption option)"
  yt_video_stream :: "exn + stream option"
  yt_audio_stream :: "exn + stream option"

record playlist =
  pl_title :: "exn + pystr"
  video_urls :: "exn + pystr list"

text \<open>
  The encoder process: \<open>Popen\<close> raises, or the process never exits, or it exits with a
  return code and its standard error, having written its output file or not (it has
  when the code is \<open>0\<close>), and having let the reader of its progress log see the given
  results of \<open>readline\<close>.
\<close>

datatype proc = PopenRaises exn | NeverExits | Exited int pystr bool "pystr list"

record env =
  uni :: unicode
  max_str_digits :: nat
  YouTube :: "nat \<Rightarrow> pystr \<Rightarrow> exn + video"
  Playlist :: "nat \<Rightarrow> pystr \<Rightarrow> exn + playlist"
  Popen :: "nat \<Rightarrow> pystr list \<Rightarrow> proc"
  NamedTemporaryFile :: "nat \<Rightarrow> exn + pystr"
  platform_system :: pystr
  which_ffmpeg :: bool
  missing_packages :: "pystr list"
  expanduser :: "pystr \<Rightarrow> pystr"

definition download :: "stream \<Rightarrow> pystr \<Rightarrow> pystr \<Rightarrow> world \<Rightarrow> (exn + pystr) \<times> world" where
  "download st output_path filename w =
     (let fp = path_join output_path filename in
      case download_result st of
        Succeeds \<Rightarrow> (Inr fp, write_file fp w)
      | Fails e partial \<Rightarrow> (Inl e, if partial then write_file fp w else w))"

section \<open>The downloader\<close>

record downloader =
  path :: pystr
  mode :: pystr

definition init :: "env \<Rightarrow> world \<Rightarrow> downloader \<times> world" where
  "init E w =
     (let p = expanduser E (lit ''~/Downloads'')
      in (\<lparr>path = p, mode = lit ''S''\<rparr>, makedirs p w))"

subsection \<open>\<open>_update_ffmpeg_progress\<close>\<close>

text \<open>
  The progress bar holds \<open>n\<close>; \<open>update(k)\<close> adds \<open>k\<close> to it. \<open>shown\<close> records the value
  of \<open>n\<close> after each update. The floats of the source are taken as rationals, except
  that the division of \<open>time_ms\<close> by a million raises \<open>OverflowError\<close> where the quotient
  rounds beyond the largest float; that exception is not a \<open>ValueError\<close>, so it ends
  the thread.
\<close>

record pbar =
  pbar_n :: rat
  shown :: "rat list"

definition pbar_update :: "rat \<Rightarrow> pbar \<Rightarrow> pbar" where
  "pbar_update k p = p\<lparr>pbar_n := pbar_n p + k, shown := shown p @ [pbar_n p + k]\<rparr>"

definition float_overflow :: "int \<Rightarrow> bool" where
  "float_overflow time_ms = (2 ^ 1024 - 2 ^ 970 \<le> \<bar>of_int time_ms / (1000000 :: rat)\<bar>)"

datatype thread_end = Broke pbar | Died exn pbar

text \<open>
  The argument is the list of the results of \<open>readline\<close> that have data or are empty
  while the encoder runs; after them the file has nothing more, \<open>readline\<close> returns the
  empty string for ever and the loop polls for ever: the result \<open>None\<close>.
\<close>

fun update_ffmpeg_progress :: "unicode \<Rightarrow> nat \<Rightarrow> pbar \<Rightarrow> pystr list \<Rightarrow> thread_end option" where
  "update_ffmpeg_progress U maxd p [] = None"
| "update_ffmpeg_progress U maxd p (line # rest) =
     (if line = [] then update_ffmpeg_progress U maxd p rest
      else if is_substr (lit ''progress=end'') line then Some (Broke p)
      else if is_substr (lit ''out_time_ms='') line then
        (let parts = split 61 line in
         if 1 < length parts then
           (case py_int U maxd (parts ! 1) of
              Some time_ms \<Rightarrow>
                (if float_overflow time_ms
                 then Some (Died (lit ''integer division result too large for a float'') p)
                 else update_ffmpeg_progress U maxd
                        (pbar_update (of_int time_ms / 1000000 - pbar_n p) p) rest)
            | None \<Rightarrow> update_ffmpeg_progress U maxd p rest)
         else update_ffmpeg_progress U maxd p rest)
      else update_ffmpeg_progress U maxd p rest)"

subsection \<open>\<open>_download_video\<close>\<close>

text \<open>
  How a block of the operation ends: it runs to its end, it raises, or it never returns.
\<close>

datatype flow = Normal world | Raised exn world | Hangs world

datatype status = Returned | Blocked

text \<open>The inner \<open>try\<close> of the captions: whatever is raised there is printed, and no more.\<close>

definition download_captions :: "downloader \<Rightarrow> video \<Rightarrow> pystr \<Rightarrow> pystr \<Rightarrow> world \<Rightarrow> world" where
  "download_captions d yt lang title w =
     (case yt_captions yt of
        Inl e \<Rightarrow> print (lit ''Could not download captions: '' @ e) w
      | Inr caps \<Rightarrow>
          (case caps lang of
             None \<Rightarrow> print (lit ''No captions available for language code: '' @ lang) w
           | Some c \<Rightarrow>
               (case cap_download c of
                  Succeeds \<Rightarrow>
                    print (lit ''Captions downloaded.'') (write_file (cap_file c title (path d)) w)
                | Fails e partial \<Rightarrow>
                    print (lit ''Could not download captions: '' @ e)
                      (if partial then write_file (cap_file c title (path d)) w else w))))"

definition video_command :: "pystr \<Rightarrow> pystr \<Rightarrow> pystr \<Rightarrow> pystr \<Rightarrow> pystr \<Rightarrow> pystr list" where
  "video_command progress_name video_filepath audio_filepath video_codec output_filepath =
     [lit ''ffmpeg'',
      lit ''-y'',
      lit ''-nostdin'',
      lit ''-progress'', progress_name,
      lit ''-i'', video_filepath,
      lit ''-i'', audio_filepath,
      lit ''-c:v'', video_codec,
      lit ''-pix_fmt'', lit ''yuv420p'',
      lit ''-c:a'', lit ''aac'',
      lit ''-strict'', lit ''experimental'',
      output_filepath]"

definition sound_command :: "pystr \<Rightarrow> pystr list" where
  "sound_command mp3_file_path =
     [lit ''ffmpeg'',
      lit ''-i'', lit ''pipe:0'',
      lit ''-vn'',
      lit ''-b:a'', lit ''192k'',
      lit ''-f'', lit ''mp3'',
      mp3_file_path]"

text \<open>
  The \<open>finally\<close> block. The progress file and the two stream files are files of this
  operation, and closing and unlinking them is taken to succeed.
\<close>

definition cleanup :: "pystr \<Rightarrow> pystr \<Rightarrow> pystr \<Rightarrow> world \<Rightarrow> world" where
  "cleanup progress_name video_filepath audio_filepath w =
     (let w1 = remove_file progress_name w;
          w2 = (if video_filepath \<in> files w1 then remove_file video_filepath w1 else w1);
          w3 = (if audio_filepath \<in> files w2 then remove_file audio_filepath w2 else w2)
      in print (lit ''Temporary files cleaned up.'') w3)"

text \<open>
  The \<open>try\<close> block of the merge with its handler and its \<open>finally\<close>. The thread of the
  progress bar is started before the encoder; where \<open>Popen\<close> raises, the thread is
  left running and is not waited for.
\<close>

definition merge_streams ::
  "env \<Rightarrow> pystr list \<Rightarrow> pystr \<Rightarrow> pystr \<Rightarrow> pystr \<Rightarrow> pystr \<Rightarrow> world \<Rightarrow> flow" where
  "merge_streams E command output_filepath progress_name video_filepath audio_filepath w =
     (let w1 = called (RunPopen command) w in
      case Popen E (clock w) command of
        PopenRaises e \<Rightarrow>
          Normal (cleanup progress_name video_filepath audio_filepath
                    (print (lit ''An error occurred during ffmpeg process: '' @ e) w1))
      | NeverExits \<Rightarrow> Hangs w1
      | Exited returncode stderr wrote reads \<Rightarrow>
          (let w2 = (if returncode = 0 \<or> wrote then write_file output_filepath w1 else w1) in
           case update_ffmpeg_progress (uni E) (max_str_digits E)
                  \<lparr>pbar_n = 0, shown = []\<rparr> reads of
             None \<Rightarrow> Hangs w2
           | Some t \<Rightarrow>
               Normal (cleanup progress_name video_filepath audio_filepath
                         (print (if returncode = 0
                                 then lit ''Successfully merged and saved to '' @ output_filepath
                                 else lit ''Error during ffmpeg merging: '' @ stderr) w2))))"

definition video_branch :: "env \<Rightarrow> downloader \<Rightarrow> video \<Rightarrow> pystr \<Rightarrow> world \<Rightarrow> flow" where
  "video_branch E d yt title w =
     (case yt_video_stream yt of Inl e \<Rightarrow> Raised e w | Inr vs \<Rightarrow>
      (case yt_audio_stream yt of Inl e \<Rightarrow> Raised e w | Inr as \<Rightarrow>
      (case vs of None \<Rightarrow> Normal (print (lit ''No video stream found.'') w) | Some video_stream \<Rightarrow>
      (case as of None \<Rightarrow> Normal (print (lit ''No audio stream found.'') w) | Some audio_stream \<Rightarrow>
      let temp_dir = path_join (path d) (lit ''.temp'');
          w1 = makedirs temp_dir w;
          w2 = print (lit ''Downloading video stream ('' @ resolution video_stream @ lit '')...'') w1
      in
      (case download video_stream temp_dir (title @ lit ''_video.mp4'') w2 of
        (Inl e, w3) \<Rightarrow> Raised e w3
      | (Inr video_filepath, w3) \<Rightarrow>
      let w4 = print (lit ''Downloading audio stream...'')
                 (print (lit ''Video stream download complete.'') w3)
      in
      (case download audio_stream temp_dir (title @ lit ''_audio.mp4'') w4 of
        (Inl e, w5) \<Rightarrow> Raised e w5
      | (Inr audio_filepath, w5) \<Rightarrow>
      let w6 = print (lit ''Audio stream download complete.'') w5;
          output_filepath = path_join (path d) (title @ lit ''.mp4'');
          w7 = print (lit ''Merging video and audio streams with ffmpeg...'') w6
      in
      (case NamedTemporaryFile E (clock w7) of Inl e \<Rightarrow> Raised e w7 | Inr progress_name \<Rightarrow>
      let w8 = write_file progress_name w7;
          video_codec = (if platform_system E = lit ''Darwin''
                         then lit ''h264_videotoolbox'' else lit ''libx264'');
          command = video_command progress_name video_filepath audio_filepath
                      video_codec output_filepath
      in
      (case yt_length yt of Inl e \<Rightarrow> Raised e w8 | Inr total_duration \<Rightarrow>
      merge_streams E command output_filepath progress_name video_filepath audio_filepath w8))))))))"

definition sound_branch :: "env \<Rightarrow> downloader \<Rightarrow> video \<Rightarrow> pystr \<Rightarrow> world \<Rightarrow> flow" where
  "sound_branch E d yt title w =
     (case yt_audio_stream yt of Inl e \<Rightarrow> Raised e w | Inr as \<Rightarrow>
      let w1 = print (lit ''Streaming audio to ffmpeg for MP3 conversion...'') w in
      (case as of
        None \<Rightarrow> Raised (none_has_no_attribute (lit ''stream_to_buffer'')) w1
      | Some stream \<Rightarrow>
      (case stream_to_buffer stream of Some e \<Rightarrow> Raised e w1 | None \<Rightarrow>
      let mp3_file_path = path_join (path d) (title @ lit ''.mp3'');
          command = sound_command mp3_file_path
      in
      (case yt_length yt of Inl e \<Rightarrow> Raised e w1 | Inr total_duration \<Rightarrow>
      let w2 = called (RunPopen command) w1 in
      (case Popen E (clock w1) command of
        PopenRaises e \<Rightarrow>
          Normal (print (lit ''An error occurred during ffmpeg conversion: '' @ e) w2)
      | NeverExits \<Rightarrow> Hangs w2
      | Exited returncode stderr wrote reads \<Rightarrow>
          (let w3 = (if returncode = 0 \<or> wrote then write_file mp3_file_path w2 else w2) in
           Normal (print (if returncode = 0
                          then lit ''Successfully created '' @ title @ lit ''.mp3''
                          else lit ''Error during ffmpeg conversion: '' @ stderr) w3)))))))"

text \<open>The body of the outer \<open>try\<close>, and the operation with its handler.\<close>

definition download_video_body :: "env \<Rightarrow> downloader \<Rightarrow> pystr \<Rightarrow> pystr \<Rightarrow> world \<Rightarrow> flow" where
  "download_video_body E d url lang w =
     (let w1 = called (NewYouTube url) w in
      case YouTube E (clock w) url of Inl e \<Rightarrow> Raised e w1 | Inr yt \<Rightarrow>
      let title = sanitize_filename (yt_title yt);
          w2 = print (lit ''Sanitized Title: '' @ title)
                 (print (lit ''\<newline>Processing: '' @ yt_title yt) w1);
          w3 = download_captions d yt lang title w2
      in if mode d = lit ''V'' then video_branch E d yt title w3
         else if mode d = lit ''S'' then sound_branch E d yt title w3
         else Normal w3)"

definition download_video :: "env \<Rightarrow> downloader \<Rightarrow> pystr \<Rightarrow> pystr \<Rightarrow> world \<Rightarrow> status \<times> world" where
  "download_video E d url lang w =
     (case download_video_body E d url lang (called (DownloadVideo url lang) w) of
        Normal w' \<Rightarrow> (Returned, w')
      | Raised err w' \<Rightarrow>
          (Returned, print (lit ''An error occurred during video processing: '' @ err) w')
      | Hangs w' \<Rightarrow> (Blocked, w'))"

subsection \<open>\<open>_download_playlist\<close>\<close>

fun playlist_loop :: "env \<Rightarrow> downloader \<Rightarrow> pystr list \<Rightarrow> world \<Rightarrow> status \<times> world" where
  "playlist_loop E d [] w = (Returned, w)"
| "playlist_loop E d (video_url # rest) w =
     (case download_video E d video_url (lit ''ko'') w of
        (Blocked, w1) \<Rightarrow> (Blocked, w1)
      | (Returned, w1) \<Rightarrow> playlist_loop E d rest (called Sleep w1))"

definition download_playlist_body :: "env \<Rightarrow> downloader \<Rightarrow> pystr \<Rightarrow> world \<Rightarrow> flow" where
  "download_playlist_body E d url w =
     (case re_search_list url of
        None \<Rightarrow> Raised (none_has_no_attribute (lit ''group'')) w
      | Some playlist_id \<Rightarrow>
      let w1 = print (lit ''playlist_id: '' @ playlist_id) w;
          playlist_url = lit ''https://www.youtube.com/playlist?list='' @ playlist_id;
          w2 = called (NewPlaylist playlist_url) w1
      in
      (case Playlist E (clock w1) playlist_url of Inl e \<Rightarrow> Raised e w2 | Inr pl \<Rightarrow>
      (case pl_title pl of Inl e \<Rightarrow> Raised e w2 | Inr t \<Rightarrow>
      let w3 = print (lit ''\<newline>Found playlist: '' @ t) w2 in
      (case video_urls pl of Inl e \<Rightarrow> Raised e w3 | Inr urls \<Rightarrow>
      let w4 = print (lit ''Downloading '' @ str_of_nat (length urls) @ lit '' videos...'') w3 in
      (case playlist_loop E d urls w4 of
        (Blocked, w5) \<Rightarrow> Hangs w5
      | (Returned, w5) \<Rightarrow> Normal (print (lit ''\<newline>Playlist download finished.'') w5))))))"

definition download_playlist :: "env \<Rightarrow> downloader \<Rightarrow> pystr \<Rightarrow> world \<Rightarrow> status \<times> world" where
  "download_playlist E d url w =
     (case download_playlist_body E d url (called (DownloadPlaylist url) w) of
        Normal w' \<Rightarrow> (Returned, w')
      | Raised err w' \<Rightarrow> (Returned, print (lit ''Error processing playlist: '' @ err) w')
      | Hangs w' \<Rightarrow> (Blocked, w'))"

subsection \<open>\<open>run\<close>\<close>

text \<open>
  Standard input is the list of the lines still to be read; \<open>input\<close> prints its prompt
  and takes the first of them, and raises \<open>EOFError\<close> where there is none. The loop
  ends by \<open>break\<close>, by that error, which nothing catches, or never, where a download
  does not return; \<open>exit()\<close> ends the program from the check of the dependencies.
\<close>

datatype run_end = Break | EOFError | SystemExit | Never

definition mode_name :: "downloader \<Rightarrow> pystr" where
  "mode_name d = (if mode d = lit ''V'' then lit ''Video'' else lit ''Sound'')"

definition ask_exit :: "env \<Rightarrow> world \<Rightarrow> pystr list \<Rightarrow> run_end option \<times> world \<times> pystr list" where
  "ask_exit E w lines =
     (let w1 = print (lit ''Do you want to exit? (y/n): '') w in
      case lines of
        [] \<Rightarrow> (Some EOFError, w1, [])
      | l # ls \<Rightarrow> (if lower (uni E) l = lit ''y'' then (Some SystemExit, w1, ls)
                   else (None, w1, ls)))"

definition check_ffmpeg :: "env \<Rightarrow> world \<Rightarrow> pystr list \<Rightarrow> run_end option \<times> world \<times> pystr list" where
  "check_ffmpeg E w lines =
     (if \<not> which_ffmpeg E then
        ask_exit E
          (print (lit ''  - Or download from https://ffmpeg.org/download.html and add it to your system's PATH.'')
          (print (lit ''  - On Windows (with Chocolatey): choco install ffmpeg'')
          (print (lit ''  - On macOS (with Homebrew): brew install ffmpeg'')
          (print (lit ''Please install ffmpeg to use this script.'')
          (print (lit ''\<newline>Error: ffmpeg is not installed or not in your PATH.'') w))))) lines
      else (None, w, lines))"

definition check_packages :: "env \<Rightarrow> world \<Rightarrow> pystr list \<Rightarrow> run_end option \<times> world \<times> pystr list" where
  "check_packages E w lines =
     (if missing_packages E \<noteq> [] then
        ask_exit E
          (print (lit ''Please install them using pip: pip install ''
                    @ str_join (lit '' '') (missing_packages E))
          (print (lit ''\<newline>Error: The following Python packages are not installed: ''
                    @ str_join (lit '', '') (missing_packages E)) w)) lines
      else (None, w, lines))"

definition check_dependencies :: "env \<Rightarrow> world \<Rightarrow> pystr list \<Rightarrow> run_end option \<times> world \<times> pystr list" where
  "check_dependencies E w lines =
     (case check_ffmpeg E w lines of
        (Some e, w1, ls) \<Rightarrow> (Some e, w1, ls)
      | (None, w1, ls) \<Rightarrow> check_packages E w1 ls)"

definition print_instructions :: "downloader \<Rightarrow> world \<Rightarrow> world" where
  "print_instructions d w =
     print (lit ''\<newline>Default mode is Sound. Current mode: '' @ mode_name d)
    (print (lit ''  - '/exit' to quit the program.'')
    (print (lit ''  - '/sound' to switch to sound download mode (default). '')
    (print (lit ''  - '/video' to switch to video download mode.'')
    (print (lit ''  - Enter a YouTube URL to download.'')
    (print (lit ''\<newline>Commands:'') w)))))"

fun main_loop ::
  "env \<Rightarrow> downloader \<Rightarrow> world \<Rightarrow> pystr list \<Rightarrow> run_end \<times> downloader \<times> world \<times> pystr list" where
  "main_loop E d w [] = (EOFError, d, print (lit ''\<newline>Enter YouTube URL or command: '') w, [])"
| "main_loop E d w (l # ls) =
     (let w1 = print (lit ''\<newline>Enter YouTube URL or command: '') w;
          user_input = strip (uni E) l
      in
      if lower (uni E) user_input = lit ''/exit'' then
        (Break, d, print (lit ''Exiting program.'') w1, ls)
      else if lower (uni E) user_input = lit ''/video'' then
        main_loop E (d\<lparr>mode := lit ''V''\<rparr>) (print (lit ''Mode changed to Video.'') w1) ls
      else if lower (uni E) user_input = lit ''/sound'' then
        main_loop E (d\<lparr>mode := lit ''S''\<rparr>) (print (lit ''Mode changed to Sound.'') w1) ls
      else if user_input = [] then
        main_loop E d w1 ls
      else
        (case download_video E d user_input (lit ''ko'') w1 of
           (Blocked, w2) \<Rightarrow> (Never, d, w2, ls)
         | (Returned, w2) \<Rightarrow>
             main_loop E d (print (lit ''\<newline>Current mode: '' @ mode_name d) w2) ls))"

definition run :: "env \<Rightarrow> downloader \<Rightarrow> world \<Rightarrow> pystr list \<Rightarrow> run_end \<times> downloader \<times> world \<times> pystr list" where
  "run E d w lines =
     (case check_dependencies E w lines of
        (Some e, w1, ls) \<Rightarrow> (e, d, w1, ls)
      | (None, w1, ls) \<Rightarrow> main_loop E d (print_instructions d w1) ls)"

definition main :: "env \<Rightarrow> world \<Rightarrow> pystr list \<Rightarrow> run_end \<times> downloader \<times> world \<times> pystr list" where
  "main E w lines = (case init E w of (downloader, w1) \<Rightarrow> run E downloader w1 lines)"

section \<open>Notions of the statements\<close>

text \<open>The calls of the two download operations among the recorded calls.\<close>

fun is_download :: "call \<Rightarrow> bool" where
  "is_download (DownloadVideo u l) = True"
| "is_download (DownloadPlaylist u) = True"
| "is_download c = False"

definition downloads :: "world \<Rightarrow> call list" where
  "downloads w = filter is_download (calls w)"

fun world_of :: "flow \<Rightarrow> world" where
  "world_of (Normal w) = w"
| "world_of (Raised e w) = w"
| "world_of (Hangs w) = w"

text \<open>
  The state machine of the mode, in the words of the specification: a line whose
  stripped, lower-cased form is \<open>/video\<close> gives \<open>V\<close>, one whose form is \<open>/sound\<close> gives
  \<open>S\<close>, any other line leaves the mode as it is. A line is a command where that form is
  one of the three commands, and a URL where it is neither blank nor a command.
  \<open>dispatched\<close> lists the calls of \<open>_download_video\<close> expected for the lines read: one for
  each URL, with the stripped line and the default language, in the order of the lines.
\<close>

definition mode_step :: "unicode \<Rightarrow> pystr \<Rightarrow> pystr \<Rightarrow> pystr" where
  "mode_step U m l =
     (if lower U (strip U l) = lit ''/video'' then lit ''V''
      else if lower U (strip U l) = lit ''/sound'' then lit ''S''
      else m)"

definition is_command :: "unicode \<Rightarrow> pystr \<Rightarrow> bool" where
  "is_command U l =
     (lower U (strip U l) = lit ''/exit'' \<or> lower U (strip U l) = lit ''/video''
      \<or> lower U (strip U l) = lit ''/sound'')"

definition is_url :: "unicode \<Rightarrow> pystr \<Rightarrow> bool" where
  "is_url U l = (strip U l \<noteq> [] \<and> \<not> is_command U l)"

definition prompt :: pystr where
  "prompt = lit ''\<newline>Enter YouTube URL or command: ''"

definition dispatched :: "unicode \<Rightarrow> pystr list \<Rightarrow> call list" where
  "dispatched U read = map (\<lambda>l. DownloadVideo (strip U l) (lit ''ko'')) (filter (is_url U) read)"

text \<open>
  The paths of one download: the directory of the temporary files, the two stream files
  and the two output files.
\<close>

definition temp_dir :: "downloader \<Rightarrow> pystr" where
  "temp_dir d = path_join (path d) (lit ''.temp'')"

definition temp_video :: "downloader \<Rightarrow> video \<Rightarrow> pystr" where
  "temp_video d yt = path_join (temp_dir d) (sanitize_filename (yt_title yt) @ lit ''_video.mp4'')"

definition temp_audio :: "downloader \<Rightarrow> video \<Rightarrow> pystr" where
  "temp_audio d yt = path_join (temp_dir d) (sanitize_filename (yt_title yt) @ lit ''_audio.mp4'')"

definition output_mp4 :: "downloader \<Rightarrow> video \<Rightarrow> pystr" where
  "output_mp4 d yt = path_join (path d) (sanitize_filename (yt_title yt) @ lit ''.mp4'')"

definition output_mp3 :: "downloader \<Rightarrow> video \<Rightarrow> pystr" where
  "output_mp3 d yt = path_join (path d) (sanitize_filename (yt_title yt) @ lit ''.mp3'')"

text \<open>
  A download in sound mode succeeds where the audio stream is there and is read into the
  buffer, the length is known and the encoder, consulted at time \<open>t\<close>, exits with code
  \<open>0\<close>. A download in video mode succeeds where both streams are there and are
  downloaded, the progress file is made, under a name other than that of the output, the
  length is known, the encoder exits with code \<open>0\<close> and the reader of its progress ends.
\<close>

definition sound_succeeds :: "env \<Rightarrow> downloader \<Rightarrow> video \<Rightarrow> nat \<Rightarrow> bool" where
  "sound_succeeds E d yt t =
     (mode d = lit ''S''
      \<and> (case yt_audio_stream yt of Inr (Some st) \<Rightarrow> stream_to_buffer st = None | _ \<Rightarrow> False)
      \<and> (case yt_length yt of Inr n \<Rightarrow> True | Inl e \<Rightarrow> False)
      \<and> (case Popen E t (sound_command (output_mp3 d yt)) of
            Exited returncode stderr wrote reads \<Rightarrow> returncode = 0
          | _ \<Rightarrow> False))"

definition video_codec_of :: "env \<Rightarrow> pystr" where
  "video_codec_of E =
     (if platform_system E = lit ''Darwin'' then lit ''h264_videotoolbox'' else lit ''libx264'')"

definition video_succeeds :: "env \<Rightarrow> downloader \<Rightarrow> video \<Rightarrow> nat \<Rightarrow> bool" where
  "video_succeeds E d yt t =
     (mode d = lit ''V''
      \<and> (case yt_video_stream yt of Inr (Some st) \<Rightarrow> download_result st = Succeeds | _ \<Rightarrow> False)
      \<and> (case yt_audio_stream yt of Inr (Some st) \<Rightarrow> download_result st = Succeeds | _ \<Rightarrow> False)
      \<and> (case yt_length yt of Inr n \<Rightarrow> True | Inl e \<Rightarrow> False)
      \<and> (case NamedTemporaryFile E t of
            Inl e \<Rightarrow> False
          | Inr progress_name \<Rightarrow>
              progress_name \<noteq> output_mp4 d yt
              \<and> (case Popen E t (video_command progress_name (temp_video d yt) (temp_audio d yt)
                                  (video_codec_of E) (output_mp4 d yt)) of
                    Exited returncode stderr wrote reads \<Rightarrow>
                      returncode = 0
                      \<and> update_ffmpeg_progress (uni E) (max_str_digits E)
                            \<lparr>pbar_n = 0, shown = []\<rparr> reads \<noteq> None
                  | _ \<Rightarrow> False)))"

definition output_file :: "downloader \<Rightarrow> video \<Rightarrow> pystr" where
  "output_file d yt = (if mode d = lit ''V'' then output_mp4 d yt else output_mp3 d yt)"

text \<open>
  What the operation prints about the captions, and the files the download of the
  captions leaves, for each thing that can happen there.
\<close>

definition caption_report :: "video \<Rightarrow> pystr \<Rightarrow> pystr" where
  "caption_report yt lang =
     (case yt_captions yt of
        Inl e \<Rightarrow> lit ''Could not download captions: '' @ e
      | Inr caps \<Rightarrow>
          (case caps lang of
             None \<Rightarrow> lit ''No captions available for language code: '' @ lang
           | Some c \<Rightarrow>
               (case cap_download c of
                  Succeeds \<Rightarrow> lit ''Captions downloaded.''
                | Fails e partial \<Rightarrow> lit ''Could not download captions: '' @ e)))"

definition caption_files :: "downloader \<Rightarrow> video \<Rightarrow> pystr \<Rightarrow> pystr set" where
  "caption_files d yt lang =
     (case yt_captions yt of
        Inl e \<Rightarrow> {}
      | Inr caps \<Rightarrow>
          (case caps lang of
             None \<Rightarrow> {}
           | Some c \<Rightarrow>
               (case cap_download c of
                  Succeeds \<Rightarrow> {cap_file c (sanitize_filename (yt_title yt)) (path d)}
                | Fails e partial \<Rightarrow>
                    (if partial then {cap_file c (sanitize_filename (yt_title yt)) (path d)}
                     else {}))))"

text \<open>\<open>os.path.join(a, b)\<close> is \<open>base a @ b\<close> where \<open>b\<close> does not start with a slash.\<close>

definition base :: "pystr \<Rightarrow> pystr" where
  "base a = (if a = [] \<or> last a = 47 then a else a @ [47])"





section \<open>A sample environment\<close>

text \<open>
  An interpreter, a video with Korean captions and two streams, an encoder that succeeds,
  an empty world and the downloader as \<open>__init__\<close> makes it: the inputs at which the
  statements below are tried.
\<close>

definition U0 :: unicode where
  "U0 = \<lparr>uspace = (\<lambda>c. c = 133 \<or> c = 160), ulower = (\<lambda>s. s), udecimal = (\<lambda>c. None)\<rparr>"

definition st0 :: stream where
  "st0 = \<lparr>resolution = lit ''1080p'', download_result = Succeeds, stream_to_buffer = None\<rparr>"

definition cap0 :: caption where
  "cap0 = \<lparr>cap_file = (\<lambda>t dir. path_join dir (t @ lit '' (ko).srt'')),
           cap_download = Succeeds\<rparr>"

definition yt0 :: video where
  "yt0 = \<lparr>yt_title = lit ''a/b'', yt_length = Inr 10,
          yt_captions = Inr (\<lambda>l. if l = lit ''ko'' then Some cap0 else None),
          yt_video_stream = Inr (Some st0), yt_audio_stream = Inr (Some st0)\<rparr>"

definition E0 :: env where
  "E0 = \<lparr>uni = U0, max_str_digits = 4300,
         YouTube = (\<lambda>t u. if u = lit ''v'' then Inr yt0 else Inl (lit ''no match'')),
         Playlist = (\<lambda>t u. Inl (lit ''HTTP Error 404'')),
         Popen = (\<lambda>t c. Exited 0 [] False
                    [lit ''out_time_ms=5000000\<newline>'', lit ''progress=end\<newline>'']),
         NamedTemporaryFile = (\<lambda>t. Inr (lit ''/tmp/p'')),
         platform_system = lit ''Linux'', which_ffmpeg = True, missing_packages = [],
         expanduser = (\<lambda>p. lit ''/h'' @ drop 1 p)\<rparr>"

definition w0 :: world where
  "w0 = \<lparr>files = {}, dirs = {}, out = [], calls = [], clock = 0\<rparr>"

definition d0 :: downloader where
  "d0 = \<lparr>path = lit ''/h/Downloads'', mode = lit ''S''\<rparr>"

definition lines0 :: "pystr list" where
  "lines0 = [lit '' /Video '', [], lit ''x'', lit ''/SOUND'']"

text \<open>
  The downloader in video mode, and the sample video with an audio stream whose
  download fails.
\<close>

definition dV :: downloader where
  "dV = d0\<lparr>mode := lit ''V''\<rparr>"

definition st1 :: stream where
  "st1 = \<lparr>resolution = lit ''None'', download_result = Fails (lit ''reset'') False,
          stream_to_buffer = Some (lit ''reset'')\<rparr>"

definition yt1 :: video where
  "yt1 = yt0\<lparr>yt_audio_stream := Inr (Some st1)\<rparr>"

definition E1 :: env where
  "E1 = E0\<lparr>YouTube := (\<lambda>t u. Inr yt1)\<rparr>"

text \<open>The sample video with captions whose listing raises, and its environment.\<close>

definition yt2 :: video where
  "yt2 = yt0\<lparr>yt_captions := Inl (lit ''timed out'')\<rparr>"

definition E2 :: env where
  "E2 = E0\<lparr>YouTube := (\<lambda>t u. Inr yt2)\<rparr>"




section \<open>Properties\<close>

subsection \<open>Sanitizing a title\<close>

lemma re_sub_class_empty: "re_sub_class cls [] s = filter (\<lambda>c. c \<notin> cls) s"
  by (induction s) simp_all

lemma sanitize_filename_filter: "sanitize_filename title = filter (\<lambda>c. c \<notin> illegal) title"
  by (simp add: sanitize_filename_def re_sub_class_empty)

lemma illegal_chars: "illegal = set (lit (CHR 0x5C # CHR 0x22 # ''/*?:<>|#''))"
  by (auto simp add: illegal_def lit_def)

text \<open>
  Claim C1. For every title, \<open>_sanitize_filename\<close> returns the title without the
  characters of the class: what it returns is the title filtered by "is not one of
  them", so each of them is gone, every other character is kept, in its place among the
  others, and nothing else is changed or cut. Being a function of the title alone, it is
  deterministic and pure.
\<close>

theorem sanitize_filename_removes:
  "sanitize_filename title = filter (\<lambda>c. c \<notin> illegal) title
   \<and> set (sanitize_filename title) \<inter> illegal = {}
   \<and> subseq (sanitize_filename title) title"
  by (auto simp add: sanitize_filename_def re_sub_class_empty)

theorem sanitize_filename_removes_witness:
  "sanitize_filename (lit ''a/b: c#?'') = lit ''ab c''"
  using sanitize_filename_removes [of "lit ''a/b: c#?''"]
  by (simp add: lit_def illegal_def)

subsection \<open>What the operations do to the record of calls\<close>

lemma downloads_simps [simp]:
  "downloads (print s w) = downloads w"
  "downloads (write_file p w) = downloads w"
  "downloads (remove_file p w) = downloads w"
  "downloads (makedirs p w) = downloads w"
  "downloads (called c w) = downloads w @ (if is_download c then [c] else [])"
  by (simp_all add: downloads_def print_def write_file_def remove_file_def makedirs_def
      called_def)

lemma downloads_captions [simp]: "downloads (download_captions d yt lang t w) = downloads w"
  by (simp add: download_captions_def split: sum.splits option.splits io.splits)

lemma downloads_cleanup [simp]: "downloads (cleanup a b c w) = downloads w"
  by (simp add: cleanup_def Let_def)

lemma downloads_download [simp]: "downloads (snd (download st op fn w)) = downloads w"
  by (simp add: download_def Let_def split: io.splits)

lemma downloads_merge [simp]:
  "downloads (world_of (merge_streams E c op pn vf af w)) = downloads w"
  by (simp add: merge_streams_def Let_def split: proc.splits option.splits)

lemma downloads_video_branch [simp]:
  "downloads (world_of (video_branch E d yt t w)) = downloads w"
  unfolding video_branch_def Let_def
  apply (simp split: sum.splits option.splits prod.splits)
  apply (auto dest!: arg_cong [where f = "\<lambda>x. downloads (snd x)"])
  done

lemma downloads_sound_branch [simp]:
  "downloads (world_of (sound_branch E d yt t w)) = downloads w"
  unfolding sound_branch_def Let_def
  by (simp split: sum.splits option.splits proc.splits)

lemma downloads_video_body [simp]:
  "downloads (world_of (download_video_body E d url lang w)) = downloads w"
  unfolding download_video_body_def Let_def
  by (simp split: sum.splits)

lemma downloads_download_video:
  "downloads (snd (download_video E d url lang w)) = downloads w @ [DownloadVideo url lang]"
proof -
  let ?w = "called (DownloadVideo url lang) w"
  have "downloads (world_of (download_video_body E d url lang ?w)) = downloads ?w"
    by simp
  then show ?thesis
    by (cases "download_video_body E d url lang ?w") (simp_all add: download_video_def)
qed

subsection \<open>The main loop\<close>

lemma cmds_distinct [simp]:
  "lit ''/exit'' \<noteq> lit ''/video''" "lit ''/exit'' \<noteq> lit ''/sound''"
  "lit ''/video'' \<noteq> lit ''/sound''" "lit ''/video'' \<noteq> lit ''/exit''"
  "lit ''/sound'' \<noteq> lit ''/exit''" "lit ''/sound'' \<noteq> lit ''/video''"
  "lit ''/exit'' \<noteq> []" "lit ''/video'' \<noteq> []" "lit ''/sound'' \<noteq> []"
  "lit ''S'' \<noteq> lit ''V''" "lit ''V'' \<noteq> lit ''S''"
  by (simp_all add: lit_def)

lemma main_loop_exit:
  "lower (uni E) (strip (uni E) l) = lit ''/exit'' \<Longrightarrow>
   main_loop E d w (l # ls) = (Break, d, print (lit ''Exiting program.'') (print prompt w), ls)"
  by (simp add: Let_def prompt_def)

lemma main_loop_video:
  "lower (uni E) (strip (uni E) l) = lit ''/video'' \<Longrightarrow>
   main_loop E d w (l # ls) =
     main_loop E (d\<lparr>mode := lit ''V''\<rparr>) (print (lit ''Mode changed to Video.'') (print prompt w)) ls"
  by (simp add: Let_def prompt_def)

lemma main_loop_sound:
  "lower (uni E) (strip (uni E) l) = lit ''/sound'' \<Longrightarrow>
   main_loop E d w (l # ls) =
     main_loop E (d\<lparr>mode := lit ''S''\<rparr>) (print (lit ''Mode changed to Sound.'') (print prompt w)) ls"
  by (simp add: Let_def prompt_def)

lemma main_loop_blank:
  "\<not> is_command (uni E) l \<Longrightarrow> strip (uni E) l = [] \<Longrightarrow>
   main_loop E d w (l # ls) = main_loop E d (print prompt w) ls"
  by (simp add: Let_def prompt_def is_command_def)

lemma main_loop_url:
  "is_url (uni E) l \<Longrightarrow>
   main_loop E d w (l # ls) =
     (case download_video E d (strip (uni E) l) (lit ''ko'') (print prompt w) of
        (Blocked, w2) \<Rightarrow> (Never, d, w2, ls)
      | (Returned, w2) \<Rightarrow>
          main_loop E d (print (lit ''\<newline>Current mode: '' @ mode_name d) w2) ls)"
  by (simp add: Let_def prompt_def is_command_def is_url_def)

declare main_loop.simps(2) [simp del]

lemma line_cases:
  obtains (exit) "lower U (strip U l) = lit ''/exit''"
  | (video) "lower U (strip U l) = lit ''/video''"
  | (sound) "lower U (strip U l) = lit ''/sound''"
  | (blank) "\<not> is_command U l" "strip U l = []"
  | (url) "is_url U l"
  unfolding is_url_def is_command_def by blast

lemma main_loop_run:
  "main_loop E d w lines = (e, d', w', rest) \<Longrightarrow>
     \<exists>read. lines = read @ rest
        \<and> mode d' = foldl (mode_step (uni E)) (mode d) read
        \<and> path d' = path d
        \<and> downloads w' = downloads w @ dispatched (uni E) read"
proof (induction lines arbitrary: d w)
  case Nil
  then show ?case by (auto simp add: dispatched_def)
next
  case (Cons l ls)
  let ?U = "uni E"
  let ?P = "\<lambda>d0 read. l # ls = read @ rest
        \<and> mode d' = foldl (mode_step ?U) (mode d0) read
        \<and> path d' = path d0
        \<and> downloads w' = downloads w @ dispatched ?U read"
  show ?case
  proof (cases rule: line_cases [of ?U l])
    case exit
    with Cons.prems have "rest = ls" "d' = d" "w' = print (lit ''Exiting program.'') (print prompt w)"
      by (simp_all add: main_loop_exit)
    then have "?P d [l]"
      using exit by (simp add: mode_step_def dispatched_def is_url_def is_command_def)
    then show ?thesis by blast
  next
    case video
    with Cons.prems have "main_loop E (d\<lparr>mode := lit ''V''\<rparr>)
        (print (lit ''Mode changed to Video.'') (print prompt w)) ls = (e, d', w', rest)"
      by (simp add: main_loop_video)
    from Cons.IH [OF this] obtain read where "ls = read @ rest"
      "mode d' = foldl (mode_step ?U) (lit ''V'') read" "path d' = path d"
      "downloads w' = downloads w @ dispatched ?U read"
      by auto
    then have "?P d (l # read)"
      using video by (simp add: mode_step_def dispatched_def is_url_def is_command_def)
    then show ?thesis by blast
  next
    case sound
    with Cons.prems have "main_loop E (d\<lparr>mode := lit ''S''\<rparr>)
        (print (lit ''Mode changed to Sound.'') (print prompt w)) ls = (e, d', w', rest)"
      by (simp add: main_loop_sound)
    from Cons.IH [OF this] obtain read where "ls = read @ rest"
      "mode d' = foldl (mode_step ?U) (lit ''S'') read" "path d' = path d"
      "downloads w' = downloads w @ dispatched ?U read"
      by auto
    then have "?P d (l # read)"
      using sound by (simp add: mode_step_def dispatched_def is_url_def is_command_def)
    then show ?thesis by blast
  next
    case blank
    with Cons.prems have "main_loop E d (print prompt w) ls = (e, d', w', rest)"
      by (simp add: main_loop_blank)
    from Cons.IH [OF this] obtain read where "ls = read @ rest"
      "mode d' = foldl (mode_step ?U) (mode d) read" "path d' = path d"
      "downloads w' = downloads w @ dispatched ?U read"
      by auto
    then have "?P d (l # read)"
      using blank by (simp add: mode_step_def dispatched_def is_url_def is_command_def)
    then show ?thesis by blast
  next
    case url
    let ?call = "download_video E d (strip ?U l) (lit ''ko'') (print prompt w)"
    obtain s w2 where dv: "?call = (s, w2)"
      by (cases ?call)
    have dl: "downloads w2 = downloads w @ [DownloadVideo (strip ?U l) (lit ''ko'')]"
      using downloads_download_video [of E d "strip ?U l" "lit ''ko''" "print prompt w"] dv
      by simp
    have nocmd: "mode_step ?U (mode d) l = mode d"
      using url by (simp add: mode_step_def is_url_def is_command_def)
    show ?thesis
    proof (cases s)
      case Blocked
      with Cons.prems url dv have "rest = ls" "d' = d" "w' = w2"
        by (simp_all add: main_loop_url)
      then have "?P d [l]"
        using url dl nocmd by (simp add: dispatched_def)
      then show ?thesis by blast
    next
      case Returned
      with Cons.prems url dv have
        "main_loop E d (print (lit ''\<newline>Current mode: '' @ mode_name d) w2) ls = (e, d', w', rest)"
        by (simp add: main_loop_url)
      from Cons.IH [OF this] obtain read where "ls = read @ rest"
        "mode d' = foldl (mode_step ?U) (mode d) read" "path d' = path d"
        "downloads w' = downloads w2 @ dispatched ?U read"
        by auto
      then have "?P d (l # read)"
        using url dl nocmd by (simp add: dispatched_def)
      then show ?thesis by blast
    qed
  qed
qed

lemma mode_step_two_states:
  "m = lit ''S'' \<or> m = lit ''V'' \<Longrightarrow> mode_step U m l = lit ''S'' \<or> mode_step U m l = lit ''V''"
  by (auto simp add: mode_step_def)

lemma foldl_mode_step_two_states:
  "m = lit ''S'' \<or> m = lit ''V'' \<Longrightarrow>
   foldl (mode_step U) m read = lit ''S'' \<or> foldl (mode_step U) m read = lit ''V''"
proof (induction read arbitrary: m)
  case Nil
  then show ?case by simp
next
  case (Cons l read)
  have "mode_step U m l = lit ''S'' \<or> mode_step U m l = lit ''V''"
    using Cons.prems by (rule mode_step_two_states)
  then show ?case using Cons.IH by simp
qed

lemma ask_exit_frame:
  "ask_exit E w lines = (r, w1, ls) \<Longrightarrow>
     downloads w1 = downloads w \<and> (\<exists>asked. lines = asked @ ls)"
  by (auto simp add: ask_exit_def Let_def split: list.splits if_splits)

lemma check_ffmpeg_frame:
  "check_ffmpeg E w lines = (r, w1, ls) \<Longrightarrow>
     downloads w1 = downloads w \<and> (\<exists>asked. lines = asked @ ls)"
  by (auto simp add: check_ffmpeg_def split: if_splits dest!: ask_exit_frame)

lemma check_packages_frame:
  "check_packages E w lines = (r, w1, ls) \<Longrightarrow>
     downloads w1 = downloads w \<and> (\<exists>asked. lines = asked @ ls)"
  by (auto simp add: check_packages_def split: if_splits dest!: ask_exit_frame)

lemma check_dependencies_frame:
  assumes "check_dependencies E w lines = (r, w1, ls)"
  shows "downloads w1 = downloads w \<and> (\<exists>asked. lines = asked @ ls)"
proof -
  obtain r0 w0 ls0 where f: "check_ffmpeg E w lines = (r0, w0, ls0)"
    by (cases "check_ffmpeg E w lines")
  from check_ffmpeg_frame [OF f] obtain a0 where a0: "downloads w0 = downloads w" "lines = a0 @ ls0"
    by auto
  show ?thesis
  proof (cases r0)
    case (Some e)
    with assms f have "w1 = w0" "ls = ls0" by (simp_all add: check_dependencies_def)
    with a0 show ?thesis by auto
  next
    case None
    with assms f have "check_packages E w0 ls0 = (r, w1, ls)"
      by (simp add: check_dependencies_def)
    from check_packages_frame [OF this] obtain a1 where "downloads w1 = downloads w0" "ls0 = a1 @ ls"
      by auto
    with a0 have "downloads w1 = downloads w" "lines = (a0 @ a1) @ ls" by simp_all
    then show ?thesis by blast
  qed
qed

lemma downloads_print_instructions [simp]: "downloads (print_instructions d w) = downloads w"
  by (simp add: print_instructions_def)

lemma run_run:
  assumes "run E d w lines = (e, d', w', rest)"
  shows "\<exists>asked read. lines = asked @ read @ rest
        \<and> mode d' = foldl (mode_step (uni E)) (mode d) read
        \<and> path d' = path d
        \<and> downloads w' = downloads w @ dispatched (uni E) read"
proof -
  obtain r w1 ls where c: "check_dependencies E w lines = (r, w1, ls)"
    by (cases "check_dependencies E w lines")
  from check_dependencies_frame [OF c] obtain asked where
    a: "downloads w1 = downloads w" "lines = asked @ ls"
    by auto
  show ?thesis
  proof (cases r)
    case (Some x)
    with assms c have "d' = d" "w' = w1" "rest = ls" by (simp_all add: run_def)
    with a have "lines = asked @ [] @ rest
        \<and> mode d' = foldl (mode_step (uni E)) (mode d) []
        \<and> path d' = path d
        \<and> downloads w' = downloads w @ dispatched (uni E) []"
      by (simp add: dispatched_def)
    then show ?thesis by blast
  next
    case None
    with assms c have "main_loop E d (print_instructions d w1) ls = (e, d', w', rest)"
      by (simp add: run_def)
    from main_loop_run [OF this] obtain read where "ls = read @ rest"
      "mode d' = foldl (mode_step (uni E)) (mode d) read" "path d' = path d"
      "downloads w' = downloads (print_instructions d w1) @ dispatched (uni E) read"
      by auto
    with a have "lines = asked @ read @ rest
        \<and> mode d' = foldl (mode_step (uni E)) (mode d) read
        \<and> path d' = path d
        \<and> downloads w' = downloads w @ dispatched (uni E) read"
      by simp
    then show ?thesis by blast
  qed
qed

lemma main_run:
  assumes "main E w lines = (e, d', w', rest)"
  shows "\<exists>asked read. lines = asked @ read @ rest
        \<and> mode d' = foldl (mode_step (uni E)) (lit ''S'') read
        \<and> downloads w' = downloads w @ dispatched (uni E) read"
proof -
  let ?d = "\<lparr>path = expanduser E (lit ''~/Downloads''), mode = lit ''S''\<rparr>"
  have "run E ?d (makedirs (expanduser E (lit ''~/Downloads'')) w) lines = (e, d', w', rest)"
    using assms by (simp add: main_def init_def Let_def)
  from run_run [OF this] show ?thesis by auto
qed

text \<open>
  Claim C2. The mode has the two values \<open>S\<close> and \<open>V\<close> and no other: \<open>__init__\<close> sets
  \<open>S\<close>, and whatever the program reads, it ends with one of the two. Over the lines
  the main loop reads, the mode follows the state machine: it changes only at a line
  that is the command \<open>/video\<close> (to \<open>V\<close>) or \<open>/sound\<close> (to \<open>S\<close>); blank lines, URLs,
  whatever their download does, and \<open>/exit\<close> leave it as it is. So \<open>/video\<close> and then
  \<open>/sound\<close> give \<open>S\<close> again.
\<close>

theorem mode_state_machine:
  "mode (fst (init E wi)) = lit ''S''
   \<and> (main_loop E d w lines = (e, d', w', rest) \<longrightarrow>
        (\<exists>read. lines = read @ rest \<and> mode d' = foldl (mode_step (uni E)) (mode d) read))
   \<and> (main E w lines = (e, d', w', rest) \<longrightarrow> mode d' = lit ''S'' \<or> mode d' = lit ''V'')
   \<and> (mode_step U m l \<noteq> m \<longrightarrow>
        (lower U (strip U l) = lit ''/video'' \<and> mode_step U m l = lit ''V'')
        \<or> (lower U (strip U l) = lit ''/sound'' \<and> mode_step U m l = lit ''S''))
   \<and> (lower U (strip U l1) = lit ''/video'' \<and> lower U (strip U l2) = lit ''/sound'' \<longrightarrow>
        mode_step U (mode_step U m l1) l2 = lit ''S'')
   \<and> lit ''S'' \<noteq> lit ''V''"
proof (intro conjI impI)
  show "mode (fst (init E wi)) = lit ''S''"
    by (simp add: init_def Let_def)
next
  assume "main_loop E d w lines = (e, d', w', rest)"
  from main_loop_run [OF this]
  show "\<exists>read. lines = read @ rest \<and> mode d' = foldl (mode_step (uni E)) (mode d) read"
    by blast
next
  assume "main E w lines = (e, d', w', rest)"
  from main_run [OF this] obtain read where "mode d' = foldl (mode_step (uni E)) (lit ''S'') read"
    by blast
  then show "mode d' = lit ''S'' \<or> mode d' = lit ''V''"
    using foldl_mode_step_two_states [of "lit ''S''" "uni E" read] by simp
next
  assume "mode_step U m l \<noteq> m"
  then show "(lower U (strip U l) = lit ''/video'' \<and> mode_step U m l = lit ''V'')
        \<or> (lower U (strip U l) = lit ''/sound'' \<and> mode_step U m l = lit ''S'')"
    by (simp add: mode_step_def split: if_splits)
next
  assume "lower U (strip U l1) = lit ''/video'' \<and> lower U (strip U l2) = lit ''/sound''"
  then show "mode_step U (mode_step U m l1) l2 = lit ''S''"
    by (simp add: mode_step_def)
next
  show "lit ''S'' \<noteq> lit ''V''" by simp
qed

theorem mode_state_machine_witness:
  "main_loop E0 d0 w0 lines0 =
     (EOFError, fst (snd (main_loop E0 d0 w0 lines0)), fst (snd (snd (main_loop E0 d0 w0 lines0))), [])
   \<and> mode (fst (snd (main_loop E0 d0 w0 lines0))) = lit ''S''
   \<and> foldl (mode_step (uni E0)) (lit ''S'') (take 1 lines0) = lit ''V''"
proof -
  let ?r = "main_loop E0 d0 w0 lines0"
  have e: "fst ?r = EOFError \<and> snd (snd (snd ?r)) = []"
    by code_simp
  then have h: "?r = (EOFError, fst (snd ?r), fst (snd (snd ?r)), [])"
    by (metis prod.collapse)
  have "main_loop E0 d0 w0 lines0 = (EOFError, fst (snd ?r), fst (snd (snd ?r)), []) \<longrightarrow>
        (\<exists>read. lines0 = read @ [] \<and> mode (fst (snd ?r)) = foldl (mode_step (uni E0)) (mode d0) read)"
    using mode_state_machine [where E = E0 and d = d0 and w = w0 and lines = lines0 and e = EOFError
        and d' = "fst (snd ?r)" and w' = "fst (snd (snd ?r))" and rest = "[]"]
    by blast
  with h have m: "mode (fst (snd ?r)) = foldl (mode_step (uni E0)) (mode d0) lines0"
    by simp
  have "foldl (mode_step (uni E0)) (mode d0) lines0 = lit ''S''"
    by code_simp
  moreover have "foldl (mode_step (uni E0)) (lit ''S'') (take 1 lines0) = lit ''V''"
    by code_simp
  ultimately show ?thesis using h m by simp
qed

text \<open>
  Claim C5. Of the lines the main loop reads, each one that is a URL (not blank once
  stripped, and not a command) is passed, stripped, to \<open>_download_video\<close>, with the
  default language: the calls of the download operations that the loop adds to the record
  are those calls, one for each such line and in the order of the lines, and nothing
  else. No call of \<open>_download_playlist\<close> is ever made by the program.
\<close>

theorem urls_go_to_download_video:
  "(main_loop E d w lines = (e, d', w', rest) \<longrightarrow>
      (\<exists>read. lines = read @ rest \<and> downloads w' = downloads w @ dispatched (uni E) read))
   \<and> (main E w lines = (e, d', w', rest) \<longrightarrow>
        (\<forall>u. DownloadPlaylist u \<in> set (calls w') \<longrightarrow> DownloadPlaylist u \<in> set (calls w)))
   \<and> (is_url U l \<longrightarrow> dispatched U (pre @ l # post)
        = dispatched U pre @ DownloadVideo (strip U l) (lit ''ko'') # dispatched U post)
   \<and> (\<not> is_url U l \<longrightarrow> dispatched U (pre @ l # post) = dispatched U pre @ dispatched U post)"
proof (intro conjI impI allI)
  assume "main_loop E d w lines = (e, d', w', rest)"
  from main_loop_run [OF this]
  show "\<exists>read. lines = read @ rest \<and> downloads w' = downloads w @ dispatched (uni E) read"
    by blast
next
  fix u
  assume m: "main E w lines = (e, d', w', rest)" and u: "DownloadPlaylist u \<in> set (calls w')"
  from main_run [OF m] obtain read where r: "downloads w' = downloads w @ dispatched (uni E) read"
    by blast
  from u have "DownloadPlaylist u \<in> set (downloads w')"
    by (simp add: downloads_def)
  with r have "DownloadPlaylist u \<in> set (downloads w) \<or> DownloadPlaylist u \<in> set (dispatched (uni E) read)"
    by simp
  moreover have "DownloadPlaylist u \<notin> set (dispatched (uni E) read)"
    by (auto simp add: dispatched_def)
  ultimately show "DownloadPlaylist u \<in> set (calls w)"
    by (simp add: downloads_def)
next
  assume "is_url U l"
  then show "dispatched U (pre @ l # post)
        = dispatched U pre @ DownloadVideo (strip U l) (lit ''ko'') # dispatched U post"
    by (simp add: dispatched_def)
next
  assume "\<not> is_url U l"
  then show "dispatched U (pre @ l # post) = dispatched U pre @ dispatched U post"
    by (simp add: dispatched_def)
qed

theorem urls_go_to_download_video_witness:
  "main_loop E0 d0 w0 lines0 =
     (EOFError, fst (snd (main_loop E0 d0 w0 lines0)), fst (snd (snd (main_loop E0 d0 w0 lines0))), [])
   \<and> downloads (fst (snd (snd (main_loop E0 d0 w0 lines0)))) = [DownloadVideo (lit ''x'') (lit ''ko'')]"
proof -
  let ?r = "main_loop E0 d0 w0 lines0"
  have e: "fst ?r = EOFError \<and> snd (snd (snd ?r)) = []"
    by code_simp
  then have h: "?r = (EOFError, fst (snd ?r), fst (snd (snd ?r)), [])"
    by (metis prod.collapse)
  have "main_loop E0 d0 w0 lines0 = (EOFError, fst (snd ?r), fst (snd (snd ?r)), []) \<longrightarrow>
        (\<exists>read. lines0 = read @ []
           \<and> downloads (fst (snd (snd ?r))) = downloads w0 @ dispatched (uni E0) read)"
    using urls_go_to_download_video [where E = E0 and d = d0 and w = w0 and lines = lines0
        and e = EOFError and d' = "fst (snd ?r)" and w' = "fst (snd (snd ?r))" and rest = "[]"]
    by blast
  with h have m: "downloads (fst (snd (snd ?r))) = downloads w0 @ dispatched (uni E0) lines0"
    by simp
  have "downloads w0 @ dispatched (uni E0) lines0 = [DownloadVideo (lit ''x'') (lit ''ko'')]"
    by code_simp
  then show ?thesis using h m by simp
qed

lemma exit_example: "lower U (strip U (lit ''  /EXIT '')) = lit ''/exit''"
  by (simp add: strip_def lower_def isspace_def ascii_lower_def lit_def)

lemma video_example: "lower U (strip U (lit ''/Video'')) = lit ''/video''"
  by (simp add: strip_def lower_def isspace_def ascii_lower_def lit_def)

text \<open>
  Claim C10. A line whose stripped, lower-cased form is \<open>/exit\<close>, \<open>/video\<close> or
  \<open>/sound\<close> is handled as that command: the loop ends, or goes on with the mode set and
  the confirmation printed. Such a line is not a URL, and handling it calls no download
  operation. The lines \<open>'  /EXIT '\<close> and \<open>'/Video'\<close> are commands.
\<close>

theorem commands_recognised:
  "(lower (uni E) (strip (uni E) l) = lit ''/exit'' \<longrightarrow>
      main_loop E d w (l # ls) = (Break, d, print (lit ''Exiting program.'') (print prompt w), ls))
   \<and> (lower (uni E) (strip (uni E) l) = lit ''/video'' \<longrightarrow>
      main_loop E d w (l # ls) =
        main_loop E (d\<lparr>mode := lit ''V''\<rparr>) (print (lit ''Mode changed to Video.'') (print prompt w)) ls)
   \<and> (lower (uni E) (strip (uni E) l) = lit ''/sound'' \<longrightarrow>
      main_loop E d w (l # ls) =
        main_loop E (d\<lparr>mode := lit ''S''\<rparr>) (print (lit ''Mode changed to Sound.'') (print prompt w)) ls)
   \<and> (is_command (uni E) l \<longrightarrow> \<not> is_url (uni E) l
        \<and> downloads (fst (snd (snd (main_loop E d w [l])))) = downloads w)
   \<and> is_command (uni E) (lit ''  /EXIT '') \<and> is_command (uni E) (lit ''/Video'')"
proof (intro conjI impI)
  assume "lower (uni E) (strip (uni E) l) = lit ''/exit''"
  then show "main_loop E d w (l # ls) = (Break, d, print (lit ''Exiting program.'') (print prompt w), ls)"
    by (rule main_loop_exit)
next
  assume "lower (uni E) (strip (uni E) l) = lit ''/video''"
  then show "main_loop E d w (l # ls) =
        main_loop E (d\<lparr>mode := lit ''V''\<rparr>) (print (lit ''Mode changed to Video.'') (print prompt w)) ls"
    by (rule main_loop_video)
next
  assume "lower (uni E) (strip (uni E) l) = lit ''/sound''"
  then show "main_loop E d w (l # ls) =
        main_loop E (d\<lparr>mode := lit ''S''\<rparr>) (print (lit ''Mode changed to Sound.'') (print prompt w)) ls"
    by (rule main_loop_sound)
next
  assume "is_command (uni E) l"
  then show "\<not> is_url (uni E) l" by (simp add: is_url_def)
next
  assume c: "is_command (uni E) l"
  obtain e d' w' rest where r: "main_loop E d w [l] = (e, d', w', rest)"
    by (cases "main_loop E d w [l]")
  from main_loop_run [OF r] obtain read where
    "[l] = read @ rest" "downloads w' = downloads w @ dispatched (uni E) read"
    by blast
  moreover from this c have "dispatched (uni E) read = []"
    by (cases read) (auto simp add: dispatched_def is_url_def)
  ultimately show "downloads (fst (snd (snd (main_loop E d w [l])))) = downloads w"
    using r by simp
next
  show "is_command (uni E) (lit ''  /EXIT '')"
    by (simp add: is_command_def exit_example)
next
  show "is_command (uni E) (lit ''/Video'')"
    by (simp add: is_command_def video_example)
qed

theorem commands_recognised_witness:
  "lower (uni E0) (strip (uni E0) (lit ''  /EXIT '')) = lit ''/exit''
   \<and> main_loop E0 d0 w0 [lit ''  /EXIT '', lit ''v'']
       = (Break, d0, print (lit ''Exiting program.'') (print prompt w0), [lit ''v''])
   \<and> lower (uni E0) (strip (uni E0) (lit ''/Video'')) = lit ''/video''
   \<and> main_loop E0 d0 w0 [lit ''/Video'']
       = main_loop E0 (d0\<lparr>mode := lit ''V''\<rparr>) (print (lit ''Mode changed to Video.'') (print prompt w0)) []"
  using commands_recognised [where E = E0 and l = "lit ''  /EXIT ''" and d = d0 and w = w0 and ls = "[lit ''v'']"]
    commands_recognised [where E = E0 and l = "lit ''/Video''" and d = d0 and w = w0 and ls = "[]"]
  by (simp add: exit_example video_example)

subsection \<open>Playlists\<close>

lemma prefix_is_substr: "prefix p s \<Longrightarrow> is_substr p s"
  by (cases s) simp_all

lemma re_search_list_None: "\<not> is_substr (lit ''list='') url \<Longrightarrow> re_search_list url = None"
  by (induction url) simp_all

text \<open>
  Claim C6. For a URL in which \<open>list=\<close> does not occur, \<open>_download_playlist\<close> fails at
  the search for the identifier: it returns having printed the error and nothing else,
  the playlist is not resolved and \<open>_download_video\<close> is not called (the record of calls
  gains the call of \<open>_download_playlist\<close> itself and no other), and no file is touched.
\<close>

theorem playlist_without_list_fails:
  assumes "\<not> is_substr (lit ''list='') url"
  shows "download_playlist E d url w =
           (Returned,
            print (lit ''Error processing playlist: '' @ none_has_no_attribute (lit ''group''))
              (called (DownloadPlaylist url) w))
         \<and> calls (snd (download_playlist E d url w)) = calls w @ [DownloadPlaylist url]
         \<and> files (snd (download_playlist E d url w)) = files w"
  using re_search_list_None [OF assms]
  by (simp add: download_playlist_def download_playlist_body_def print_def called_def)

theorem playlist_without_list_fails_witness:
  "\<not> is_substr (lit ''list='') (lit ''watch?v=li'')
   \<and> calls (snd (download_playlist E0 d0 (lit ''watch?v=li'') w0)) = [DownloadPlaylist (lit ''watch?v=li'')]
   \<and> out (snd (download_playlist E0 d0 (lit ''watch?v=li'') w0))
       = [lit ''Error processing playlist: '' @ none_has_no_attribute (lit ''group'')]"
proof -
  have h: "\<not> is_substr (lit ''list='') (lit ''watch?v=li'')"
    by (simp add: lit_def)
  from playlist_without_list_fails [OF h, of E0 d0 w0] show ?thesis
    using h by (simp add: w0_def print_def called_def)
qed

subsection \<open>The commands of the encoder\<close>

lemma length_path_join: "length b \<le> length (path_join a b)"
  by (simp add: path_join_def)

lemma path_join_mp3_ne: "path_join p (t @ lit ''.mp3'') \<noteq> lit ''-y''"
proof
  assume "path_join p (t @ lit ''.mp3'') = lit ''-y''"
  then have "length (path_join p (t @ lit ''.mp3'')) = 2" by (simp add: lit_def)
  moreover have "4 \<le> length (path_join p (t @ lit ''.mp3''))"
    using length_path_join [of "t @ lit ''.mp3''" p] by (simp add: lit_def)
  ultimately show False by simp
qed

text \<open>
  Claim C4, on the code as it is. The argument list of the video mode has the flag
  \<open>-y\<close>; the argument list of the sound mode does not have it, whatever the path and the
  title, so the encoder is not told to overwrite an existing \<open>.mp3\<close>. The last part runs
  the operation in sound mode on the sample video: the command passed to \<open>Popen\<close> is that
  list.
\<close>

theorem sound_command_lacks_overwrite:
  "lit ''-y'' \<in> set (video_command pn vf af vc (path_join p (t @ lit ''.mp4'')))
   \<and> lit ''-y'' \<notin> set (sound_command (path_join p (t @ lit ''.mp3'')))
   \<and> calls (snd (download_video E0 d0 (lit ''v'') (lit ''ko'') w0))
       = [DownloadVideo (lit ''v'') (lit ''ko''), NewYouTube (lit ''v''),
          RunPopen (sound_command (lit ''/h/Downloads/ab.mp3''))]"
proof (intro conjI)
  show "lit ''-y'' \<in> set (video_command pn vf af vc (path_join p (t @ lit ''.mp4'')))"
    by (simp add: video_command_def)
next
  have "lit ''-y'' \<noteq> path_join p (t @ lit ''.mp3'')"
    using path_join_mp3_ne [of p t] by metis
  then show "lit ''-y'' \<notin> set (sound_command (path_join p (t @ lit ''.mp3'')))"
    by (simp add: sound_command_def lit_def)
next
  show "calls (snd (download_video E0 d0 (lit ''v'') (lit ''ko'') w0))
       = [DownloadVideo (lit ''v'') (lit ''ko''), NewYouTube (lit ''v''),
          RunPopen (sound_command (lit ''/h/Downloads/ab.mp3''))]"
    by code_simp
qed

subsection \<open>The files of a download\<close>

lemma world_simps [simp]:
  "files (print s w) = files w" "dirs (print s w) = dirs w"
  "out (print s w) = out w @ [s]" "clock (print s w) = clock w"
  "files (called c w) = files w" "dirs (called c w) = dirs w"
  "out (called c w) = out w" "clock (called c w) = Suc (clock w)"
  "files (write_file p w) = insert p (files w)" "dirs (write_file p w) = dirs w"
  "out (write_file p w) = out w" "clock (write_file p w) = clock w"
  "files (remove_file p w) = files w - {p}" "dirs (remove_file p w) = dirs w"
  "out (remove_file p w) = out w" "clock (remove_file p w) = clock w"
  "files (makedirs p w) = files w" "dirs (makedirs p w) = insert p (dirs w)"
  "out (makedirs p w) = out w" "clock (makedirs p w) = clock w"
  by (simp_all add: print_def called_def write_file_def remove_file_def makedirs_def)

lemma captions_frame [simp]:
  "clock (download_captions d yt lang t w) = clock w"
  "dirs (download_captions d yt lang t w) = dirs w"
  by (simp_all add: download_captions_def split: sum.splits option.splits io.splits)

lemma captions_files:
  "files (download_captions d yt lang (sanitize_filename (yt_title yt)) w)
     = files w \<union> caption_files d yt lang"
  by (simp add: download_captions_def caption_files_def split: sum.splits option.splits io.splits)

lemma captions_out:
  "out (download_captions d yt lang t w) = out w @ [caption_report yt lang]"
  by (simp add: download_captions_def caption_report_def split: sum.splits option.splits io.splits)

lemma cleanup_files:
  "files (cleanup pn vf af w) = files w - {pn, vf, af}"
  by (auto simp add: cleanup_def Let_def)

lemma cleanup_frame [simp]:
  "out (cleanup pn vf af w) = out w @ [lit ''Temporary files cleaned up.'']"
  "dirs (cleanup pn vf af w) = dirs w"
  by (simp_all add: cleanup_def Let_def)

lemma merge_cleans_up:
  "merge_streams E c op pn vf af w = Normal w' \<Longrightarrow>
     pn \<notin> files w' \<and> vf \<notin> files w' \<and> af \<notin> files w'"
  by (auto simp add: merge_streams_def Let_def cleanup_files split: proc.splits option.splits)

text \<open>
  Claim C3, on the code as it is. In video mode, where the video stream has been
  downloaded and the download of the audio stream raises, the operation returns, having
  printed the error, and the file \<open><title>_video.mp4\<close> is still in \<open>.temp\<close>: the
  deletions are in the \<open>finally\<close> of the merge, which this path does not reach.
\<close>

theorem stream_files_left_behind:
  assumes "mode d = lit ''V''"
    and "YouTube E (Suc (clock w)) url = Inr yt"
    and "yt_video_stream yt = Inr (Some vs)" and "download_result vs = Succeeds"
    and "yt_audio_stream yt = Inr (Some as)" and "download_result as = Fails e partial"
  shows "fst (download_video E d url lang w) = Returned
         \<and> temp_video d yt \<in> files (snd (download_video E d url lang w))
         \<and> last (out (snd (download_video E d url lang w)))
             = lit ''An error occurred during video processing: '' @ e"
  using assms
  by (simp add: download_video_def download_video_body_def video_branch_def download_def
      Let_def temp_video_def temp_dir_def)

theorem stream_files_left_behind_witness:
  "mode dV = lit ''V''
   \<and> fst (download_video E1 dV (lit ''v'') (lit ''ko'') w0) = Returned
   \<and> lit ''/h/Downloads/.temp/ab_video.mp4''
        \<in> files (snd (download_video E1 dV (lit ''v'') (lit ''ko'') w0))"
proof -
  have t: "temp_video dV yt1 = lit ''/h/Downloads/.temp/ab_video.mp4''"
    by code_simp
  have "mode dV = lit ''V''" "YouTube E1 (Suc (clock w0)) (lit ''v'') = Inr yt1"
    "yt_video_stream yt1 = Inr (Some st0)" "download_result st0 = Succeeds"
    "yt_audio_stream yt1 = Inr (Some st1)" "download_result st1 = Fails (lit ''reset'') False"
    by (simp_all add: dV_def d0_def E1_def E0_def yt1_def yt0_def st0_def st1_def)
  from stream_files_left_behind [OF this, of "lit ''ko''"] t show ?thesis
    by (simp add: dV_def d0_def)
qed

subsection \<open>Paths, and the downloads that succeed\<close>

lemma hd_sanitized: "s \<noteq> [] \<Longrightarrow> hd s \<noteq> 47 \<Longrightarrow> hd (sanitize_filename t @ s) \<noteq> 47"
proof (cases "sanitize_filename t")
  case Nil
  assume "hd s \<noteq> 47"
  with Nil show ?thesis by simp
next
  case (Cons c cs)
  then have "c \<in> set (sanitize_filename t)" by simp
  then have "c \<notin> illegal" by (simp add: sanitize_filename_filter)
  then have "c \<noteq> 47" by (auto simp add: illegal_def)
  with Cons show ?thesis by simp
qed

lemma path_join_base: "b \<noteq> [] \<Longrightarrow> hd b \<noteq> 47 \<Longrightarrow> path_join a b = base a @ b"
  by (simp add: path_join_def base_def)

lemma hd_lits [simp]:
  "lit ''.temp'' \<noteq> []" "hd (lit ''.temp'') \<noteq> 47" "last (lit ''.temp'') \<noteq> 47"
  "lit ''_video.mp4'' \<noteq> []" "hd (lit ''_video.mp4'') \<noteq> 47"
  "lit ''_audio.mp4'' \<noteq> []" "hd (lit ''_audio.mp4'') \<noteq> 47"
  "lit ''.mp4'' \<noteq> []" "hd (lit ''.mp4'') \<noteq> 47"
  "lit ''.mp3'' \<noteq> []" "hd (lit ''.mp3'') \<noteq> 47"
  by (simp_all add: lit_def)

lemma temp_dir_eq: "temp_dir d = base (path d) @ lit ''.temp''"
  by (simp add: temp_dir_def path_join_base)

lemma base_temp_dir: "base (temp_dir d) = base (path d) @ lit ''.temp/''"
  by (simp add: temp_dir_eq base_def lit_def)

lemma paths_eq:
  "temp_video d yt = base (path d) @ lit ''.temp/'' @ sanitize_filename (yt_title yt) @ lit ''_video.mp4''"
  "temp_audio d yt = base (path d) @ lit ''.temp/'' @ sanitize_filename (yt_title yt) @ lit ''_audio.mp4''"
  "output_mp4 d yt = base (path d) @ sanitize_filename (yt_title yt) @ lit ''.mp4''"
  "output_mp3 d yt = base (path d) @ sanitize_filename (yt_title yt) @ lit ''.mp3''"
  by (simp_all add: temp_video_def temp_audio_def output_mp4_def output_mp3_def
      path_join_base hd_sanitized base_temp_dir)

lemma output_not_temp:
  "temp_video d yt \<noteq> output_mp4 d yt" "temp_audio d yt \<noteq> output_mp4 d yt"
  "temp_video d yt \<noteq> temp_audio d yt"
proof -
  have "length (temp_video d yt) \<noteq> length (output_mp4 d yt)"
    "length (temp_audio d yt) \<noteq> length (output_mp4 d yt)"
    by (simp_all add: paths_eq lit_def)
  then show "temp_video d yt \<noteq> output_mp4 d yt" "temp_audio d yt \<noteq> output_mp4 d yt"
    by auto
  show "temp_video d yt \<noteq> temp_audio d yt"
    by (simp add: paths_eq lit_def)
qed

lemma sanitized_no_slash: "47 \<notin> set (sanitize_filename t)"
  by (simp add: sanitize_filename_filter illegal_def)

lemma output_mp3_not_under_temp: "\<not> prefix (temp_dir d @ [47]) (output_mp3 d yt)"
proof
  assume "prefix (temp_dir d @ [47]) (output_mp3 d yt)"
  then have "prefix (lit ''.temp/'') (sanitize_filename (yt_title yt) @ lit ''.mp3'')"
    by (simp add: temp_dir_eq paths_eq lit_def)
  then have "set (lit ''.temp/'') \<subseteq> set (sanitize_filename (yt_title yt) @ lit ''.mp3'')"
    by (rule set_mono_prefix)
  moreover have "47 \<in> set (lit ''.temp/'')" by (simp add: lit_def)
  moreover have "47 \<notin> set (lit ''.mp3'')" by (simp add: lit_def)
  ultimately show False using sanitized_no_slash [of "yt_title yt"] by auto
qed

lemma sound_succeedsE:
  assumes "sound_succeeds E d yt t"
  obtains st n err wrote reads where "mode d = lit ''S''"
    and "yt_audio_stream yt = Inr (Some st)" and "stream_to_buffer st = None"
    and "yt_length yt = Inr n"
    and "Popen E t (sound_command (output_mp3 d yt)) = Exited 0 err wrote reads"
  using assms unfolding sound_succeeds_def
  by (auto split: sum.splits option.splits proc.splits)

lemma video_succeedsE:
  assumes "video_succeeds E d yt t"
  obtains vs as n pn err wrote reads te where "mode d = lit ''V''"
    and "yt_video_stream yt = Inr (Some vs)" and "download_result vs = Succeeds"
    and "yt_audio_stream yt = Inr (Some as)" and "download_result as = Succeeds"
    and "yt_length yt = Inr n"
    and "NamedTemporaryFile E t = Inr pn" and "pn \<noteq> output_mp4 d yt"
    and "Popen E t (video_command pn (temp_video d yt) (temp_audio d yt)
                      (video_codec_of E) (output_mp4 d yt)) = Exited 0 err wrote reads"
    and "update_ffmpeg_progress (uni E) (max_str_digits E) \<lparr>pbar_n = 0, shown = []\<rparr> reads = Some te"
  using assms unfolding video_succeeds_def
  by (auto split: sum.splits option.splits proc.splits)

lemma sound_success:
  assumes y: "YouTube E (Suc (clock w)) url = Inr yt" and s: "sound_succeeds E d yt (clock w + 2)"
  shows "fst (download_video E d url lang w) = Returned
    \<and> files (snd (download_video E d url lang w))
           = files w \<union> caption_files d yt lang \<union> {output_mp3 d yt}
    \<and> dirs (snd (download_video E d url lang w)) = dirs w
    \<and> caption_report yt lang \<in> set (out (snd (download_video E d url lang w)))"
proof -
  from s obtain st n err wrote reads where "mode d = lit ''S''"
    and "yt_audio_stream yt = Inr (Some st)" and "stream_to_buffer st = None"
    and "yt_length yt = Inr n"
    and "Popen E (Suc (Suc (clock w))) (sound_command (output_mp3 d yt)) = Exited 0 err wrote reads"
    by (auto elim: sound_succeedsE)
  with y show ?thesis
    by (simp add: download_video_def download_video_body_def sound_branch_def
        output_mp3_def Let_def captions_files captions_out Un_commute insert_commute)
qed

lemma video_success:
  assumes y: "YouTube E (Suc (clock w)) url = Inr yt" and s: "video_succeeds E d yt (clock w + 2)"
  shows "fst (download_video E d url lang w) = Returned
    \<and> output_mp4 d yt \<in> files (snd (download_video E d url lang w))
    \<and> temp_video d yt \<notin> files (snd (download_video E d url lang w))
    \<and> temp_audio d yt \<notin> files (snd (download_video E d url lang w))
    \<and> caption_report yt lang \<in> set (out (snd (download_video E d url lang w)))"
proof -
  from s obtain vs as n pn err wrote reads te where m: "mode d = lit ''V''"
    and v: "yt_video_stream yt = Inr (Some vs)" "download_result vs = Succeeds"
    and a: "yt_audio_stream yt = Inr (Some as)" "download_result as = Succeeds"
    and l: "yt_length yt = Inr n"
    and t: "NamedTemporaryFile E (Suc (Suc (clock w))) = Inr pn" and ne: "pn \<noteq> output_mp4 d yt"
    and p: "Popen E (Suc (Suc (clock w))) (video_command pn (temp_video d yt) (temp_audio d yt)
                      (video_codec_of E) (output_mp4 d yt)) = Exited 0 err wrote reads"
    and u: "update_ffmpeg_progress (uni E) (max_str_digits E) \<lparr>pbar_n = 0, shown = []\<rparr> reads = Some te"
    by (auto elim: video_succeedsE)
  let ?t = "sanitize_filename (yt_title yt)"
  let ?w3 = "download_captions d yt lang ?t
      (print (lit ''Sanitized Title: '' @ ?t) (print (lit ''\<newline>Processing: '' @ yt_title yt)
         (called (NewYouTube url) (called (DownloadVideo url lang) w))))"
  have c3: "clock ?w3 = Suc (Suc (clock w))" by simp
  have vb: "\<exists>w'. video_branch E d yt ?t ?w3 = Normal w'
      \<and> files w' = (insert (output_mp4 d yt) (insert pn (insert (temp_audio d yt)
            (insert (temp_video d yt) (files ?w3))))) - {pn, temp_video d yt, temp_audio d yt}
      \<and> set (out ?w3) \<subseteq> set (out w')"
    using v a l t p u c3
    by (auto simp add: video_branch_def merge_streams_def download_def Let_def cleanup_files
        temp_video_def [symmetric] temp_audio_def [symmetric] temp_dir_def [symmetric]
        output_mp4_def [symmetric] video_codec_of_def [symmetric])
  then obtain w' where w': "video_branch E d yt ?t ?w3 = Normal w'"
    "files w' = (insert (output_mp4 d yt) (insert pn (insert (temp_audio d yt)
            (insert (temp_video d yt) (files ?w3))))) - {pn, temp_video d yt, temp_audio d yt}"
    "set (out ?w3) \<subseteq> set (out w')"
    by blast
  have dv: "download_video E d url lang w = (Returned, w')"
    using y m w' by (simp add: download_video_def download_video_body_def Let_def)
  have "caption_report yt lang \<in> set (out ?w3)"
    by (simp add: captions_out)
  with w' dv ne output_not_temp [of d yt] show ?thesis
    by auto
qed

subsection \<open>Captions\<close>

text \<open>
  Claim C7. Whatever happens at the captions (their listing raises, the download of the
  track raises, the language is not there, or the track is downloaded), the operation
  prints the corresponding report and goes on to the branch of the mode: where the
  download of the media succeeds, in sound mode or in video mode, the operation returns
  and its output file is there. The captions of the video are not constrained by the
  hypotheses.
\<close>

theorem captions_never_abort:
  assumes "YouTube E (Suc (clock w)) url = Inr yt"
    and "sound_succeeds E d yt (clock w + 2) \<or> video_succeeds E d yt (clock w + 2)"
  shows "fst (download_video E d url lang w) = Returned
         \<and> output_file d yt \<in> files (snd (download_video E d url lang w))
         \<and> caption_report yt lang \<in> set (out (snd (download_video E d url lang w)))"
proof -
  from assms(2) show ?thesis
  proof
    assume s: "sound_succeeds E d yt (clock w + 2)"
    then have "mode d = lit ''S''" by (simp add: sound_succeeds_def)
    then have "output_file d yt = output_mp3 d yt" by (simp add: output_file_def)
    with sound_success [OF assms(1) s, of lang] show ?thesis by simp
  next
    assume v: "video_succeeds E d yt (clock w + 2)"
    then have "mode d = lit ''V''" by (simp add: video_succeeds_def)
    then have "output_file d yt = output_mp4 d yt" by (simp add: output_file_def)
    with video_success [OF assms(1) v, of lang] show ?thesis by simp
  qed
qed

lemma E2_sound: "sound_succeeds E2 d0 yt2 (clock w0 + 2)"
  by (simp add: sound_succeeds_def E2_def E0_def yt2_def yt0_def st0_def d0_def)

lemma E2_video: "video_succeeds E2 dV yt2 (clock w0 + 2)"
  apply (simp add: video_succeeds_def E2_def E0_def yt2_def yt0_def st0_def dV_def d0_def
      pbar_update_def)
  apply (simp add: output_mp4_def path_join_def lit_def sanitize_filename_def illegal_def
      py_int_def tok_of_def float_overflow_def)
  done

theorem captions_never_abort_witness:
  "caption_report yt2 (lit ''ko'') = lit ''Could not download captions: timed out''
   \<and> output_file d0 yt2 = lit ''/h/Downloads/ab.mp3''
   \<and> lit ''/h/Downloads/ab.mp3'' \<in> files (snd (download_video E2 d0 (lit ''v'') (lit ''ko'') w0))
   \<and> lit ''Could not download captions: timed out''
        \<in> set (out (snd (download_video E2 d0 (lit ''v'') (lit ''ko'') w0)))
   \<and> output_file dV yt2 = lit ''/h/Downloads/ab.mp4''
   \<and> lit ''/h/Downloads/ab.mp4'' \<in> files (snd (download_video E2 dV (lit ''v'') (lit ''ko'') w0))"
proof -
  have y: "YouTube E2 (Suc (clock w0)) (lit ''v'') = Inr yt2"
    by (simp add: E2_def)
  have r: "caption_report yt2 (lit ''ko'') = lit ''Could not download captions: timed out''"
    by (simp add: caption_report_def yt2_def lit_def)
  have o: "output_file d0 yt2 = lit ''/h/Downloads/ab.mp3''"
    "output_file dV yt2 = lit ''/h/Downloads/ab.mp4''"
    by code_simp+
  from captions_never_abort [OF y disjI1 [OF E2_sound], of "lit ''ko''"]
    captions_never_abort [OF y disjI2 [OF E2_video], of "lit ''ko''"] r o
  show ?thesis by simp
qed

subsection \<open>The files of a download in sound mode\<close>

lemma E0_sound: "sound_succeeds E0 d0 yt0 (clock w0 + 2)"
  by (simp add: sound_succeeds_def E0_def yt0_def st0_def d0_def)

text \<open>
  Claim C8 as stated fails where the video has captions in the language asked for: the
  operation in sound mode on the sample video succeeds and adds two files, the captions
  and the \<open>.mp3\<close>.
\<close>

theorem sound_mode_two_files:
  "fst (download_video E0 d0 (lit ''v'') (lit ''ko'') w0) = Returned
   \<and> last (out (snd (download_video E0 d0 (lit ''v'') (lit ''ko'') w0)))
        = lit ''Successfully created ab.mp3''
   \<and> files (snd (download_video E0 d0 (lit ''v'') (lit ''ko'') w0)) - files w0
        = {lit ''/h/Downloads/ab (ko).srt'', lit ''/h/Downloads/ab.mp3''}
   \<and> lit ''/h/Downloads/ab (ko).srt'' \<noteq> lit ''/h/Downloads/ab.mp3''"
  by code_simp

text \<open>
  Claim C8, amended. A download in sound mode that succeeds leaves the files that were
  there, the file \<open><path>/<sanitized title>.mp3\<close>, which is not under \<open>.temp\<close>, and what
  the download of the captions wrote, and nothing else; it makes no directory. Where the
  language asked for has no captions, the \<open>.mp3\<close> is the one file added.
\<close>

theorem sound_mode_files:
  assumes "YouTube E (Suc (clock w)) url = Inr yt"
    and "sound_succeeds E d yt (clock w + 2)"
  shows "fst (download_video E d url lang w) = Returned
         \<and> files (snd (download_video E d url lang w))
             = files w \<union> caption_files d yt lang \<union> {output_mp3 d yt}
         \<and> dirs (snd (download_video E d url lang w)) = dirs w
         \<and> \<not> prefix (temp_dir d @ [47]) (output_mp3 d yt)
         \<and> (yt_captions yt = Inr caps \<and> caps lang = None \<longrightarrow> caption_files d yt lang = {})"
  using sound_success [OF assms, of lang] output_mp3_not_under_temp [of d yt]
  by (simp add: caption_files_def)

theorem sound_mode_files_witness:
  "files (snd (download_video E0 d0 (lit ''v'') (lit ''en'') w0)) = {lit ''/h/Downloads/ab.mp3''}
   \<and> dirs (snd (download_video E0 d0 (lit ''v'') (lit ''en'') w0)) = {}"
proof -
  have y: "YouTube E0 (Suc (clock w0)) (lit ''v'') = Inr yt0"
    by (simp add: E0_def)
  have c: "caption_files d0 yt0 (lit ''en'') = {}"
    by (simp add: caption_files_def yt0_def lit_def)
  have o: "output_mp3 d0 yt0 = lit ''/h/Downloads/ab.mp3''"
    by code_simp
  from sound_mode_files [OF y E0_sound, of "lit ''en''"] c o show ?thesis
    by (simp add: w0_def)
qed

subsection \<open>The progress log\<close>








declare update_ffmpeg_progress.simps(2) [simp del]









end
